theory Spec2Isabelle
  imports Complex_Main "HOL-Library.AList" "HOL-Library.Multiset"
begin

section \<open>Data model (services/database.ts, lines 3-28)\<close>

text \<open>
  The three interfaces of \<^verbatim>\<open>database.ts\<close> are records. Several of them share field
  names (\<^verbatim>\<open>id\<close>, \<^verbatim>\<open>type\<close>, \<^verbatim>\<open>category\<close>, \<^verbatim>\<open>amount\<close>, \<^verbatim>\<open>createdAt\<close>); they are
  written qualified (\<open>Transaction.id\<close>, \<open>BudgetGoal.category\<close>, ...) throughout.

  Amounts are JavaScript numbers that travel through \<^verbatim>\<open>JSON.stringify\<close> and
  \<^verbatim>\<open>JSON.parse\<close>, which carry finite numbers only. They are modelled as rationals with
  exact arithmetic: the rounding of IEEE-754 doubles is not modelled. Only the quotient
  computed by the alert evaluator can leave the finite numbers (division by a zero
  amount); it has the type \<open>number\<close> below.
\<close>

datatype TransactionType = income | expense

datatype Period = monthly | annual

record Transaction =
  id :: string
  type :: TransactionType
  category :: string
  amount :: rat
  description :: "string option"
  date :: string

record BudgetGoal =
  id :: string
  category :: string
  amount :: rat
  period :: Period
  isActive :: bool
  createdAt :: string

record Category =
  id :: string
  name :: string
  type :: TransactionType
  isCustom :: bool
  icon :: "string option"
  createdAt :: string

text \<open>\<^verbatim>\<open>Partial<Category>\<close>: every field may be absent (\<open>None\<close>).\<close>

record PartialCategory =
  id :: "string option"
  name :: "string option"
  type :: "TransactionType option"
  isCustom :: "bool option"
  icon :: "string option"
  createdAt :: "string option"

text \<open>\<^verbatim>\<open>Partial<BudgetGoal>\<close>.\<close>

record PartialBudgetGoal =
  id :: "string option"
  category :: "string option"
  amount :: "rat option"
  period :: "Period option"
  isActive :: "bool option"
  createdAt :: "string option"


subsection \<open>JavaScript numbers outside the finite range\<close>

datatype number = Finite rat | PosInfinity | NegInfinity | NaN






section \<open>The key-value store and asynchronous operations\<close>

text \<open>
  \<^verbatim>\<open>AsyncStorage\<close> holds one JSON string under each of three keys. A key holds either
  nothing (\<^verbatim>\<open>getItem\<close> yields \<^verbatim>\<open>null\<close>) or the serialisation of a list of records;
  \<^verbatim>\<open>JSON.parse (JSON.stringify xs)\<close> is \<open>xs\<close> on these records, so the store keeps the
  lists themselves.

  A call of the store may reject. \<open>read_faults\<close> is the outcome of the reads still to
  come and \<open>write_faults\<close> that of the writes and removals still to come, one flag per
  call, \<open>True\<close> for a rejection; when a list is used up every further call of that kind
  succeeds. A rejected write leaves the stored values as they are. \<open>history\<close> is the
  sequence of keys written or removed so far, in order.
\<close>

datatype key = STORAGE_KEY | GOALS_STORAGE_KEY | CATEGORIES_STORAGE_KEY

datatype error = PersistenceFailure | Error string

record AsyncStorage =
  budget_tracker_transactions :: "Transaction list option"
  budget_tracker_goals :: "BudgetGoal list option"
  budget_tracker_categories :: "Category list option"
  read_faults :: "bool list"
  write_faults :: "bool list"
  history :: "key list"

type_synonym 'a Promise = "AsyncStorage \<Rightarrow> (error + 'a) \<times> AsyncStorage"

definition resolve :: "'a \<Rightarrow> 'a Promise" where
  "resolve x s = (Inr x, s)"

definition throw :: "error \<Rightarrow> 'a Promise" where
  "throw e s = (Inl e, s)"

text \<open>\<^verbatim>\<open>const x = await m; f x\<close>: a rejection of \<open>m\<close> leaves the block.\<close>

definition await :: "'a Promise \<Rightarrow> ('a \<Rightarrow> 'b Promise) \<Rightarrow> 'b Promise" where
  "await m f s = (case m s of (Inl e, s') \<Rightarrow> (Inl e, s') | (Inr x, s') \<Rightarrow> f x s')"

text \<open>\<^verbatim>\<open>try { m } catch (error) { h error }\<close>. The \<^verbatim>\<open>console.error\<close> call of every
  handler has no effect on the store or the result and is left out.\<close>

definition try_catch :: "'a Promise \<Rightarrow> (error \<Rightarrow> 'a Promise) \<Rightarrow> 'a Promise" where
  "try_catch m h s = (case m s of (Inl e, s') \<Rightarrow> h e s' | (Inr x, s') \<Rightarrow> (Inr x, s'))"

definition next_read :: "AsyncStorage \<Rightarrow> bool \<times> AsyncStorage" where
  "next_read s =
     (case read_faults s of [] \<Rightarrow> (False, s) | f # fs \<Rightarrow> (f, s\<lparr>read_faults := fs\<rparr>))"

definition next_write :: "AsyncStorage \<Rightarrow> bool \<times> AsyncStorage" where
  "next_write s =
     (case write_faults s of [] \<Rightarrow> (False, s) | f # fs \<Rightarrow> (f, s\<lparr>write_faults := fs\<rparr>))"

text \<open>\<^verbatim>\<open>AsyncStorage.getItem\<close> followed by \<^verbatim>\<open>JSON.parse\<close> of a non-null result; the
  argument selects the key.\<close>

definition getItem :: "(AsyncStorage \<Rightarrow> 'a option) \<Rightarrow> 'a option Promise" where
  "getItem item s =
     (case next_read s of
        (True, s') \<Rightarrow> (Inl PersistenceFailure, s')
      | (False, s') \<Rightarrow> (Inr (item s), s'))"

text \<open>\<^verbatim>\<open>AsyncStorage.setItem\<close> and \<^verbatim>\<open>AsyncStorage.removeItem\<close>; \<open>write\<close> stores the
  new value under the key.\<close>

definition store_call :: "key \<Rightarrow> (AsyncStorage \<Rightarrow> AsyncStorage) \<Rightarrow> unit Promise" where
  "store_call k write s =
     (case next_write s of
        (True, s') \<Rightarrow> (Inl PersistenceFailure, s')
      | (False, s') \<Rightarrow> (Inr (), (write s')\<lparr>history := history s' @ [k]\<rparr>))"

definition setItem_transactions :: "Transaction list \<Rightarrow> unit Promise" where
  "setItem_transactions v =
     store_call STORAGE_KEY (\<lambda>s. s\<lparr>budget_tracker_transactions := Some v\<rparr>)"

definition setItem_goals :: "BudgetGoal list \<Rightarrow> unit Promise" where
  "setItem_goals v =
     store_call GOALS_STORAGE_KEY (\<lambda>s. s\<lparr>budget_tracker_goals := Some v\<rparr>)"

definition setItem_categories :: "Category list \<Rightarrow> unit Promise" where
  "setItem_categories v =
     store_call CATEGORIES_STORAGE_KEY (\<lambda>s. s\<lparr>budget_tracker_categories := Some v\<rparr>)"


section \<open>Dates and sorting\<close>

text \<open>
  The \<^verbatim>\<open>Date\<close> built-in belongs to the platform: how a date string is parsed and
  where local midnight lies depend on the engine and the time zone. Both are
  parameters. A time value is \<open>Some\<close> of the milliseconds since the epoch, or \<open>None\<close>
  for the NaN of an invalid date.
\<close>

record Platform =
  Date_parse :: "string \<Rightarrow> int option"
  Date_local :: "int \<Rightarrow> int \<Rightarrow> int \<Rightarrow> int \<Rightarrow> int \<Rightarrow> int \<Rightarrow> int option"

text \<open>\<^verbatim>\<open>a >= b\<close>, \<^verbatim>\<open>a <= b\<close> and \<^verbatim>\<open>a - b\<close> on time values.\<close>

fun time_ge :: "int option \<Rightarrow> int option \<Rightarrow> bool" where
  "time_ge (Some a) (Some b) = (b \<le> a)"
| "time_ge _ _ = False"

fun time_le :: "int option \<Rightarrow> int option \<Rightarrow> bool" where
  "time_le (Some a) (Some b) = (a \<le> b)"
| "time_le _ _ = False"

fun time_minus :: "int option \<Rightarrow> int option \<Rightarrow> int option" where
  "time_minus (Some a) (Some b) = Some (a - b)"
| "time_minus _ _ = None"

text \<open>
  \<^verbatim>\<open>Array.prototype.sort\<close> with a comparator is a stable sort; a NaN returned by the
  comparator counts as \<open>0\<close>. For a consistent comparator every stable sort gives the
  same list; it is written here as insertion from the right. (With an inconsistent
  comparator, which invalid dates produce, the order is left to the engine.)
\<close>

definition SortCompare :: "('a \<Rightarrow> 'a \<Rightarrow> int option) \<Rightarrow> 'a \<Rightarrow> 'a \<Rightarrow> int" where
  "SortCompare comparefn x y = (case comparefn x y of None \<Rightarrow> 0 | Some v \<Rightarrow> v)"

fun sort_insert :: "('a \<Rightarrow> 'a \<Rightarrow> int option) \<Rightarrow> 'a \<Rightarrow> 'a list \<Rightarrow> 'a list" where
  "sort_insert comparefn x [] = [x]"
| "sort_insert comparefn x (y # ys) =
     (if SortCompare comparefn x y \<le> 0 then x # y # ys
      else y # sort_insert comparefn x ys)"

definition Array_sort :: "('a \<Rightarrow> 'a \<Rightarrow> int option) \<Rightarrow> 'a list \<Rightarrow> 'a list" where
  "Array_sort comparefn xs = foldr (sort_insert comparefn) xs []"

text \<open>\<^verbatim>\<open>Array.prototype.findIndex\<close>: \<open>-1\<close> when no element satisfies the predicate.\<close>

fun findIndex :: "('a \<Rightarrow> bool) \<Rightarrow> 'a list \<Rightarrow> int" where
  "findIndex p [] = - 1"
| "findIndex p (x # xs) =
     (if p x then 0 else (let i = findIndex p xs in if i = - 1 then - 1 else i + 1))"

section \<open>Transaction ledger (lines 35-86)\<close>

text \<open>The generated ids: \<^verbatim>\<open>Date.now().toString()\<close> and
  \<^verbatim>\<open>Math.random().toString(36)\<close> are readings of the clock and of the random
  source; both strings are arguments. \<^verbatim>\<open>r.substr(2, 9)\<close> is \<open>take 9 (drop 2 r)\<close>.
  A variable the source calls \<^verbatim>\<open>id\<close> is written \<open>id'\<close>.\<close>

definition generateId :: "string \<Rightarrow> string \<Rightarrow> string" where
  "generateId now random = now @ take 9 (drop 2 random)"

text \<open>The bounds of lines 61-62 and the callback of \<^verbatim>\<open>filter\<close> (lines 64-67).\<close>

definition withinMonth :: "Platform \<Rightarrow> int \<Rightarrow> int \<Rightarrow> Transaction \<Rightarrow> bool" where
  "withinMonth P month year =
     (let startDate = Date_local P year (month - 1) 1 0 0 0;
          endDate = Date_local P year month 0 23 59 59
      in (\<lambda>transaction.
            (let transactionDate = Date_parse P (date transaction)
             in time_ge transactionDate startDate \<and> time_le transactionDate endDate)))"

text \<open>The comparator of line 70.\<close>

definition byDateDescending :: "Platform \<Rightarrow> Transaction \<Rightarrow> Transaction \<Rightarrow> int option" where
  "byDateDescending P a b = time_minus (Date_parse P (date b)) (Date_parse P (date a))"

text \<open>The time value of a transaction's date, \<^verbatim>\<open>new Date(t.date).getTime()\<close>, as an
  integer. It is used to state the order of transactions whose dates are valid; for an
  invalid date, which has no time value, it is \<open>0\<close>.\<close>

definition getTime :: "Platform \<Rightarrow> Transaction \<Rightarrow> int" where
  "getTime P t = (case Date_parse P (date t) of None \<Rightarrow> 0 | Some v \<Rightarrow> v)"

text \<open>The optional arguments are \<open>None\<close> when left out. The guard
  \<^verbatim>\<open>if (month && year)\<close> tests truthiness: \<^verbatim>\<open>undefined\<close> and \<open>0\<close> are falsy.\<close>

definition getTransactions ::
    "Platform \<Rightarrow> int option \<Rightarrow> int option \<Rightarrow> Transaction list Promise" where
  "getTransactions P month year =
     try_catch
       (await (getItem budget_tracker_transactions) (\<lambda>transactionsJson.
          case transactionsJson of
            None \<Rightarrow> resolve []
          | Some parsed \<Rightarrow>
              (let transactions =
                 (case (month, year) of
                    (Some m, Some y) \<Rightarrow>
                      if m \<noteq> 0 \<and> y \<noteq> 0 then filter (withinMonth P m y) parsed else parsed
                  | _ \<Rightarrow> parsed)
               in resolve (Array_sort (byDateDescending P) transactions))))
       (\<lambda>error. resolve [])"

text \<open>The draft \<^verbatim>\<open>Omit<Transaction, 'id'>\<close> is a transaction record whose \<open>id\<close>
  is overwritten by \<^verbatim>\<open>{ ...transaction, id }\<close>.\<close>

definition addTransaction ::
    "Platform \<Rightarrow> string \<Rightarrow> string \<Rightarrow> Transaction \<Rightarrow> Transaction Promise" where
  "addTransaction P now random transaction =
     try_catch
       (let id' = generateId now random;
            newTransaction = transaction\<lparr>Transaction.id := id'\<rparr>
        in await (getTransactions P None None) (\<lambda>existingTransactions.
             (let updatedTransactions = newTransaction # existingTransactions
              in await (setItem_transactions updatedTransactions) (\<lambda>_.
                   resolve newTransaction))))
       (\<lambda>error. throw error)"


section \<open>Statistics engine (lines 88-119)\<close>


section \<open>Budget goal store and alert evaluator (lines 122-225)\<close>

definition getBudgetGoals :: "BudgetGoal list Promise" where
  "getBudgetGoals =
     try_catch
       (await (getItem budget_tracker_goals) (\<lambda>goalsJson.
          case goalsJson of None \<Rightarrow> resolve [] | Some parsed \<Rightarrow> resolve parsed))
       (\<lambda>error. resolve [])"





text \<open>The entries and the result of \<^verbatim>\<open>checkBudgetAlerts\<close>.\<close>

record Alert =
  goal :: BudgetGoal
  currentSpending :: rat
  percentage :: number





section \<open>Category registry (lines 254-413)\<close>

text \<open>The decimal numeral of an array index, as a template literal prints it.\<close>

fun Number_toString :: "nat \<Rightarrow> string" where
  "Number_toString n =
     (if n < 10 then [''0123456789'' ! n]
      else Number_toString (n div 10) @ [''0123456789'' ! (n mod 10)])"

definition defaultExpenseCategories :: "string list" where
  "defaultExpenseCategories =
     [''Food & Dining'', ''Transportation'', ''Shopping'', ''Entertainment'',
      ''Healthcare'', ''Utilities'', ''Housing'', ''Education'', ''Travel'', ''Other'']"

definition defaultIncomeCategories :: "string list" where
  "defaultIncomeCategories =
     [''Salary'', ''Freelance'', ''Investment'', ''Business'', ''Gift'', ''Other Income'']"

text \<open>\<open>clock i\<close> is the value of the \<open>i\<close>-th \<^verbatim>\<open>new Date().toISOString()\<close> the
  operation evaluates, counted from \<open>0\<close>.\<close>

text \<open>The array that the two \<^verbatim>\<open>forEach\<close> loops of lines 282-301 fill.\<close>

definition defaultCategories :: "(nat \<Rightarrow> string) \<Rightarrow> Category list" where
  "defaultCategories clock =
     map (\<lambda>(index, name').
           \<lparr>Category.id = ''expense-'' @ Number_toString index,
            Category.name = name',
            Category.type = expense,
            Category.isCustom = False,
            Category.icon = None,
            Category.createdAt = clock index\<rparr>)
       (enumerate 0 defaultExpenseCategories)
     @
     map (\<lambda>(index, name').
           \<lparr>Category.id = ''income-'' @ Number_toString index,
            Category.name = name',
            Category.type = income,
            Category.isCustom = False,
            Category.icon = None,
            Category.createdAt = clock (length defaultExpenseCategories + index)\<rparr>)
       (enumerate 0 defaultIncomeCategories)"

definition initializeDefaultCategories :: "(nat \<Rightarrow> string) \<Rightarrow> Category list Promise" where
  "initializeDefaultCategories clock =
     (let categories = defaultCategories clock
      in await (setItem_categories categories) (\<lambda>_. resolve categories))"

definition getCategories :: "(nat \<Rightarrow> string) \<Rightarrow> Category list Promise" where
  "getCategories clock =
     try_catch
       (await (getItem budget_tracker_categories) (\<lambda>categoriesJson.
          case categoriesJson of
            None \<Rightarrow>
              await (initializeDefaultCategories clock) (\<lambda>defaultCategories.
                resolve defaultCategories)
          | Some parsed \<Rightarrow> resolve parsed))
       (\<lambda>error. resolve [])"


definition updateCategoryInTransactions :: "Platform \<Rightarrow> string \<Rightarrow> string \<Rightarrow> unit Promise" where
  "updateCategoryInTransactions P oldCategoryName newCategoryName =
     try_catch
       (await (getTransactions P None None) (\<lambda>transactions.
          (let updatedTransactions =
                 map (\<lambda>transaction.
                        if Transaction.category transaction = oldCategoryName
                        then transaction\<lparr>Transaction.category := newCategoryName\<rparr>
                        else transaction)
                   transactions
           in setItem_transactions updatedTransactions)))
       (\<lambda>error. throw error)"

definition updateCategoryInGoals :: "string \<Rightarrow> string \<Rightarrow> unit Promise" where
  "updateCategoryInGoals oldCategoryName newCategoryName =
     try_catch
       (await getBudgetGoals (\<lambda>goals.
          (let updatedGoals =
                 map (\<lambda>goal.
                        if BudgetGoal.category goal = oldCategoryName
                        then goal\<lparr>BudgetGoal.category := newCategoryName\<rparr>
                        else goal)
                   goals
           in setItem_goals updatedGoals)))
       (\<lambda>error. throw error)"

text \<open>\<^verbatim>\<open>{ ...oldCategory, ...updates }\<close>.\<close>

definition spread_category :: "Category \<Rightarrow> PartialCategory \<Rightarrow> Category" where
  "spread_category c u =
     \<lparr>Category.id = (case PartialCategory.id u of None \<Rightarrow> Category.id c | Some v \<Rightarrow> v),
      Category.name = (case PartialCategory.name u of None \<Rightarrow> Category.name c | Some v \<Rightarrow> v),
      Category.type = (case PartialCategory.type u of None \<Rightarrow> Category.type c | Some v \<Rightarrow> v),
      Category.isCustom =
        (case PartialCategory.isCustom u of None \<Rightarrow> Category.isCustom c | Some v \<Rightarrow> v),
      Category.icon =
        (case PartialCategory.icon u of None \<Rightarrow> Category.icon c | Some v \<Rightarrow> Some v),
      Category.createdAt =
        (case PartialCategory.createdAt u of None \<Rightarrow> Category.createdAt c | Some v \<Rightarrow> v)\<rparr>"

text \<open>The guard \<^verbatim>\<open>updates.name && oldCategory.name !== updates.name\<close>: an absent name
  and the empty string are falsy.\<close>

definition updateCategory ::
    "Platform \<Rightarrow> (nat \<Rightarrow> string) \<Rightarrow> string \<Rightarrow> PartialCategory \<Rightarrow> unit Promise" where
  "updateCategory P clock id' updates =
     try_catch
       (await (getCategories clock) (\<lambda>categories.
          (let categoryIndex = findIndex (\<lambda>cat. Category.id cat = id') categories
           in if categoryIndex = - 1 then throw (Error ''Category not found'')
              else
                (let oldCategory = categories ! nat categoryIndex;
                     updatedCategory = spread_category oldCategory updates;
                     categories' = categories[nat categoryIndex := updatedCategory]
                 in await
                      (case PartialCategory.name updates of
                         Some newName \<Rightarrow>
                           if newName \<noteq> [] \<and> Category.name oldCategory \<noteq> newName then
                             await (updateCategoryInTransactions P
                                      (Category.name oldCategory) newName) (\<lambda>_.
                               updateCategoryInGoals (Category.name oldCategory) newName)
                           else resolve ()
                       | None \<Rightarrow> resolve ())
                      (\<lambda>_. setItem_categories categories')))))
       (\<lambda>error. throw error)"

definition deleteCategory :: "Platform \<Rightarrow> (nat \<Rightarrow> string) \<Rightarrow> string \<Rightarrow> unit Promise" where
  "deleteCategory P clock id' =
     try_catch
       (await (getCategories clock) (\<lambda>categories.
          case List.find (\<lambda>cat. Category.id cat = id') categories of
            None \<Rightarrow> throw (Error ''Category not found'')
          | Some category' \<Rightarrow>
              if \<not> Category.isCustom category' then
                throw (Error ''Cannot delete default categories'')
              else
                (let updatedCategories = filter (\<lambda>cat. Category.id cat \<noteq> id') categories
                 in await (updateCategoryInTransactions P (Category.name category') ''Other'')
                      (\<lambda>_.
                    await (updateCategoryInGoals (Category.name category') ''Other'') (\<lambda>_.
                      setItem_categories updatedCategories)))))
       (\<lambda>error. throw error)"


section \<open>A sample platform and sample stores\<close>

text \<open>
  The examples below run on a platform whose local time is UTC. It parses the date-only
  form \<^verbatim>\<open>YYYY-MM-DD\<close>, the form the transaction screen produces, as midnight UTC of
  that day and rejects every other string; its \<^verbatim>\<open>new Date(y, m, d, h, mi, s)\<close> lets
  the month index and the day run over, as the built-in does.
\<close>

definition days_from_civil :: "int \<Rightarrow> int \<Rightarrow> int \<Rightarrow> int" where
  "days_from_civil y m d =
     (let y' = (if m \<le> 2 then y - 1 else y);
          era = y' div 400;
          yoe = y' - era * 400;
          doy = (153 * (if 2 < m then m - 3 else m + 9) + 2) div 5 + d - 1;
          doe = yoe * 365 + yoe div 4 - yoe div 100 + doy
      in era * 146097 + doe - 719468)"

definition utc_time :: "int \<Rightarrow> int \<Rightarrow> int \<Rightarrow> int \<Rightarrow> int \<Rightarrow> int \<Rightarrow> int option" where
  "utc_time y m d h mi sec =
     (let y' = (if 0 \<le> y \<and> y \<le> 99 then 1900 + y else y);
          day = days_from_civil (y' + m div 12) (m mod 12 + 1) 1 + d - 1
      in Some ((day * 86400 + h * 3600 + mi * 60 + sec) * 1000))"

definition digit :: "char \<Rightarrow> int option" where
  "digit c =
     map_of [(CHR ''0'', 0), (CHR ''1'', 1), (CHR ''2'', 2), (CHR ''3'', 3), (CHR ''4'', 4),
             (CHR ''5'', 5), (CHR ''6'', 6), (CHR ''7'', 7), (CHR ''8'', 8), (CHR ''9'', 9)] c"

fun digits :: "int \<Rightarrow> string \<Rightarrow> int option" where
  "digits acc [] = Some acc"
| "digits acc (c # cs) =
     (case digit c of None \<Rightarrow> None | Some v \<Rightarrow> digits (acc * 10 + v) cs)"

definition days_in_month :: "int \<Rightarrow> int \<Rightarrow> int" where
  "days_in_month y m =
     (if m = 2 then (if y mod 4 = 0 \<and> (y mod 100 \<noteq> 0 \<or> y mod 400 = 0) then 29 else 28)
      else if m = 4 \<or> m = 6 \<or> m = 9 \<or> m = 11 then 30 else 31)"

definition iso_date :: "string \<Rightarrow> int option" where
  "iso_date str =
     (if length str = 10 \<and> str ! 4 = CHR ''-'' \<and> str ! 7 = CHR ''-'' then
        (case (digits 0 (take 4 str), digits 0 (take 2 (drop 5 str)), digits 0 (drop 8 str)) of
           (Some y, Some m, Some d) \<Rightarrow>
             if 1 \<le> m \<and> m \<le> 12 \<and> 1 \<le> d \<and> d \<le> days_in_month y m
             then Some (days_from_civil y m d * 86400000) else None
         | _ \<Rightarrow> None)
      else None)"

definition sample_platform :: Platform where
  "sample_platform = \<lparr>Date_parse = iso_date, Date_local = utc_time\<rparr>"

definition sample_clock :: "nat \<Rightarrow> string" where
  "sample_clock i = ''2024-03-01T09:00:00.000Z''"

text \<open>A store that never rejects a call.\<close>

definition store_of ::
    "Transaction list option \<Rightarrow> BudgetGoal list option \<Rightarrow> Category list option \<Rightarrow> AsyncStorage"
    where
  "store_of ts gs cs =
     \<lparr>budget_tracker_transactions = ts, budget_tracker_goals = gs,
      budget_tracker_categories = cs, read_faults = [], write_faults = [], history = []\<rparr>"

definition tx :: "string \<Rightarrow> TransactionType \<Rightarrow> string \<Rightarrow> rat \<Rightarrow> string \<Rightarrow> Transaction" where
  "tx i ty c a d =
     \<lparr>Transaction.id = i, Transaction.type = ty, Transaction.category = c,
      Transaction.amount = a, description = None, date = d\<rparr>"

definition budget :: "string \<Rightarrow> string \<Rightarrow> rat \<Rightarrow> bool \<Rightarrow> BudgetGoal" where
  "budget i c a act =
     \<lparr>BudgetGoal.id = i, BudgetGoal.category = c, BudgetGoal.amount = a, period = monthly,
      isActive = act, BudgetGoal.createdAt = ''2024-01-01T00:00:00.000Z''\<rparr>"

definition cat :: "string \<Rightarrow> string \<Rightarrow> bool \<Rightarrow> Category" where
  "cat i n cust =
     \<lparr>Category.id = i, Category.name = n, Category.type = expense, Category.isCustom = cust,
      Category.icon = None, Category.createdAt = ''2024-01-01T00:00:00.000Z''\<rparr>"

text \<open>An update that carries a name only.\<close>

definition only_name :: "string \<Rightarrow> PartialCategory" where
  "only_name n =
     \<lparr>PartialCategory.id = None, PartialCategory.name = Some n, PartialCategory.type = None,
      PartialCategory.isCustom = None, PartialCategory.icon = None,
      PartialCategory.createdAt = None\<rparr>"

text \<open>A ledger in stored order: the order in which \<^verbatim>\<open>addTransaction\<close> leaves four
  records added in the order \<open>d\<close>, \<open>a\<close>, \<open>c\<close>, \<open>b\<close> (the ids are shortened); \<open>a\<close> and
  \<open>d\<close> have the same date.\<close>

definition sample_ledger :: "Transaction list" where
  "sample_ledger =
     [tx ''b'' income ''Salary'' 2000 ''2024-01-01'',
      tx ''c'' income ''Salary'' 2000 ''2024-02-01'',
      tx ''a'' expense ''Food'' 50 ''2024-01-05'',
      tx ''d'' expense ''Food'' 20 ''2024-01-05'']"

text \<open>A draft; its id is empty and is replaced.\<close>

definition sample_draft :: Transaction where
  "sample_draft = tx [] expense ''Fun'' 30 ''2024-01-20''"

text \<open>A store with four transactions, two goals and three categories, one of them a
  default category.\<close>

definition sample_goals :: "BudgetGoal list" where
  "sample_goals = [budget ''g1'' ''Food'' 500 True, budget ''g2'' ''Fun'' 100 True]"

definition sample_registry :: "Category list" where
  "sample_registry =
     [cat ''expense-9'' ''Other'' False, cat ''c1'' ''Food'' True, cat ''c2'' ''Fun'' True]"

definition sample_store :: AsyncStorage where
  "sample_store = store_of (Some sample_ledger) (Some sample_goals) (Some sample_registry)"

section \<open>Basic facts\<close>


lemma getItem_ok: "read_faults s = [] \<Longrightarrow> getItem item s = (Inr (item s), s)"
  by (simp add: getItem_def next_read_def)


lemma store_call_ok:
  "write_faults s = [] \<Longrightarrow> store_call k w s = (Inr (), (w s)\<lparr>history := history s @ [k]\<rparr>)"
  by (simp add: store_call_def next_write_def)



lemma mset_sort_insert: "mset (sort_insert c x ys) = add_mset x (mset ys)"
  by (induction ys) auto

lemma mset_Array_sort: "mset (Array_sort c xs) = mset xs"
  by (induction xs) (auto simp add: Array_sort_def mset_sort_insert)

lemma set_Array_sort: "set (Array_sort c xs) = set xs"
  using mset_Array_sort [of c xs] by (metis set_mset_mset)

lemma sort_insert_insort_key:
  "\<forall>y\<in>set ys. (SortCompare c x y \<le> 0) = (f x \<le> f y) \<Longrightarrow>
   sort_insert c x ys = insort_key f x ys"
  by (induction ys) auto

lemma Array_sort_sort_key:
  "\<forall>x\<in>set xs. \<forall>y\<in>set xs. (SortCompare c x y \<le> 0) = (f x \<le> f y) \<Longrightarrow>
   Array_sort c xs = sort_key f xs"
proof (induction xs)
  case Nil
  then show ?case by (simp add: Array_sort_def)
next
  case (Cons a xs)
  have ih: "Array_sort c xs = sort_key f xs" using Cons by simp
  have "sort_insert c a (sort_key f xs) = insort_key f a (sort_key f xs)"
    using Cons.prems by (intro sort_insert_insort_key) simp
  then show ?case using ih by (simp add: Array_sort_def sort_key_def)
qed


subsection \<open>The readers never reject\<close>

lemma getTransactions_ok:
  "read_faults s = [] \<Longrightarrow>
   getTransactions P month year s =
     (Inr (case budget_tracker_transactions s of
             None \<Rightarrow> []
           | Some parsed \<Rightarrow>
               Array_sort (byDateDescending P)
                 (case (month, year) of
                    (Some m, Some y) \<Rightarrow>
                      if m \<noteq> 0 \<and> y \<noteq> 0 then filter (withinMonth P m y) parsed else parsed
                  | _ \<Rightarrow> parsed)), s)"
  by (simp add: getTransactions_def try_catch_def await_def getItem_ok resolve_def
      split: option.splits)



lemma getBudgetGoals_ok:
  "read_faults s = [] \<Longrightarrow>
   getBudgetGoals s = (Inr (case budget_tracker_goals s of None \<Rightarrow> [] | Some gs \<Rightarrow> gs), s)"
  by (simp add: getBudgetGoals_def try_catch_def await_def getItem_ok resolve_def
      split: option.splits)




section \<open>Statistics\<close>









section \<open>Alert classification\<close>






section \<open>Retrieval by month\<close>

lemma byDateDescending_key:
  "Date_parse P (date a) \<noteq> None \<Longrightarrow> Date_parse P (date b) \<noteq> None \<Longrightarrow>
   (SortCompare (byDateDescending P) a b \<le> 0) = (- getTime P a \<le> - getTime P b)"
  by (auto simp add: SortCompare_def byDateDescending_def getTime_def)

lemma Array_sort_dates:
  "\<forall>t\<in>set xs. Date_parse P (date t) \<noteq> None \<Longrightarrow>
   Array_sort (byDateDescending P) xs = sort_key (\<lambda>t. - getTime P t) xs"
  by (rule Array_sort_sort_key) (simp add: byDateDescending_key)






lemma sample_dates:
  "iso_date ''2024-01-01'' = Some 1704067200000"
  "iso_date ''2024-01-05'' = Some 1704412800000"
  "iso_date ''2024-02-01'' = Some 1706745600000"
  "iso_date ''2024-01-31'' = Some 1706659200000"
  by code_simp+


lemma sample_sorted:
  "Array_sort (byDateDescending sample_platform) sample_ledger =
     [tx ''c'' income ''Salary'' 2000 ''2024-02-01'',
      tx ''a'' expense ''Food'' 50 ''2024-01-05'',
      tx ''d'' expense ''Food'' 20 ''2024-01-05'',
      tx ''b'' income ''Salary'' 2000 ''2024-01-01'']"
  by (simp add: sample_ledger_def tx_def sample_platform_def sample_dates
      Array_sort_def SortCompare_def byDateDescending_def)

lemma sample_valid:
  "\<forall>t\<in>set sample_ledger. Date_parse sample_platform (date t) \<noteq> None"
  by (simp add: sample_ledger_def tx_def sample_platform_def sample_dates)

lemma sample_sort_key:
  "sort_key (\<lambda>t. - getTime sample_platform t) sample_ledger =
     [tx ''c'' income ''Salary'' 2000 ''2024-02-01'',
      tx ''a'' expense ''Food'' 50 ''2024-01-05'',
      tx ''d'' expense ''Food'' 20 ''2024-01-05'',
      tx ''b'' income ''Salary'' 2000 ''2024-01-01'']"
  using Array_sort_dates [OF sample_valid] by (simp add: sample_sorted)



section \<open>Adding a transaction\<close>

lemma setItem_transactions_ok:
  "write_faults s = [] \<Longrightarrow>
   setItem_transactions v s =
     (Inr (), s\<lparr>budget_tracker_transactions := Some v, history := history s @ [STORAGE_KEY]\<rparr>)"
  by (simp add: setItem_transactions_def store_call_ok)

lemma setItem_goals_ok:
  "write_faults s = [] \<Longrightarrow>
   setItem_goals v s =
     (Inr (), s\<lparr>budget_tracker_goals := Some v, history := history s @ [GOALS_STORAGE_KEY]\<rparr>)"
  by (simp add: setItem_goals_def store_call_ok)

lemma setItem_categories_ok:
  "write_faults s = [] \<Longrightarrow>
   setItem_categories v s =
     (Inr (), s\<lparr>budget_tracker_categories := Some v,
               history := history s @ [CATEGORIES_STORAGE_KEY]\<rparr>)"
  by (simp add: setItem_categories_def store_call_ok)

lemma addTransaction_ok:
  "read_faults s = [] \<Longrightarrow> write_faults s = [] \<Longrightarrow>
   addTransaction P now random x s =
     (Inr (x\<lparr>Transaction.id := generateId now random\<rparr>),
      s\<lparr>budget_tracker_transactions :=
           Some (x\<lparr>Transaction.id := generateId now random\<rparr> #
                 Array_sort (byDateDescending P)
                   (case budget_tracker_transactions s of None \<Rightarrow> [] | Some l \<Rightarrow> l)),
        history := history s @ [STORAGE_KEY]\<rparr>)"
  by (simp add: addTransaction_def try_catch_def await_def resolve_def Let_def
      getTransactions_ok setItem_transactions_ok Array_sort_def split: option.splits)

lemma insort_key_split:
  "sorted (map f ys) \<Longrightarrow>
   \<exists>pre post. insort_key f x ys = pre @ x # post \<and> ys = pre @ post \<and>
     (\<forall>y\<in>set pre. f y < f x) \<and> (\<forall>y\<in>set post. f x \<le> f y)"
proof (induction ys)
  case Nil
  then show ?case by simp
next
  case (Cons y ys)
  show ?case
  proof (cases "f x \<le> f y")
    case True
    have "\<forall>z\<in>set (y # ys). f x \<le> f z"
      using True Cons.prems by auto
    then have "insort_key f x (y # ys) = [] @ x # (y # ys) \<and> y # ys = [] @ (y # ys) \<and>
        (\<forall>z\<in>set []. f z < f x) \<and> (\<forall>z\<in>set (y # ys). f x \<le> f z)"
      using True by simp
    then show ?thesis by blast
  next
    case False
    from Cons.prems have "sorted (map f ys)" by simp
    from Cons.IH [OF this] obtain pre post where
      p: "insort_key f x ys = pre @ x # post" "ys = pre @ post"
         "\<forall>z\<in>set pre. f z < f x" "\<forall>z\<in>set post. f x \<le> f z"
      by blast
    have "insort_key f x (y # ys) = (y # pre) @ x # post \<and> y # ys = (y # pre) @ post \<and>
        (\<forall>z\<in>set (y # pre). f z < f x) \<and> (\<forall>z\<in>set post. f x \<le> f z)"
      using False p by simp
    then show ?thesis by blast
  qed
qed

lemma Array_sort_Cons_dates:
  assumes "\<forall>t\<in>set (x # xs). Date_parse P (date t) \<noteq> None"
  shows "\<exists>pre post.
     Array_sort (byDateDescending P) (x # Array_sort (byDateDescending P) xs) = pre @ x # post \<and>
     mset (pre @ post) = mset xs \<and>
     (\<forall>t\<in>set pre. getTime P x < getTime P t) \<and>
     (\<forall>t\<in>set post. getTime P t \<le> getTime P x)"
proof -
  let ?f = "\<lambda>t. - getTime P t"
  have v: "\<forall>t\<in>set xs. Date_parse P (date t) \<noteq> None" using assms by simp
  have a: "Array_sort (byDateDescending P) xs = sort_key ?f xs"
    using v by (rule Array_sort_dates)
  have "\<forall>t\<in>set (x # sort_key ?f xs). Date_parse P (date t) \<noteq> None"
    using assms by simp
  then have b: "Array_sort (byDateDescending P) (x # sort_key ?f xs)
           = sort_key ?f (x # sort_key ?f xs)"
    by (rule Array_sort_dates)
  have c: "sort_key ?f (x # sort_key ?f xs) = insort_key ?f x (sort_key ?f xs)"
    by (simp add: sort_key_id_if_sorted)
  have "sorted (map ?f (sort_key ?f xs))" by (rule sorted_sort_key)
  from insort_key_split [OF this, of x] obtain pre post where
    p: "insort_key ?f x (sort_key ?f xs) = pre @ x # post" "sort_key ?f xs = pre @ post"
       "\<forall>y\<in>set pre. ?f y < ?f x" "\<forall>y\<in>set post. ?f x \<le> ?f y"
    by blast
  have "mset (pre @ post) = mset xs"
    using p(2) by (metis mset_sort)
  then show ?thesis
    using a b c p by auto
qed

text \<open>
  Claim C8, as amended. On a store whose calls succeed, \<^verbatim>\<open>addTransaction(x)\<close> returns
  \<open>x\<close> with the generated id in place of its id and all other fields as they are; the id
  is the reading of the clock followed by at most nine characters of the random source.
  The stored collection becomes the new record followed by the records stored before, in
  the order \<^verbatim>\<open>getTransactions()\<close> gives them (descending by date when the dates are
  valid). A following \<^verbatim>\<open>getTransactions()\<close> contains the new record next to exactly
  the earlier ones and, when all dates are valid, has it before every earlier record whose
  date is not later than its own, so before every record of a strictly earlier date.
\<close>

theorem addTransaction_roundtrip:
  assumes "read_faults s = []" and "write_faults s = []"
    and "stored = (case budget_tracker_transactions s of None \<Rightarrow> [] | Some l \<Rightarrow> l)"
    and "new = x\<lparr>Transaction.id := generateId now random\<rparr>"
  shows "\<exists>s' existing after.
     addTransaction P now random x s = (Inr new, s') \<and>
     budget_tracker_transactions s' = Some (new # existing) \<and>
     mset existing = mset stored \<and>
     ((\<forall>t\<in>set stored. Date_parse P (date t) \<noteq> None) \<longrightarrow>
        existing = sort_key (\<lambda>t. - getTime P t) stored) \<and>
     getTransactions P None None s' = (Inr after, s') \<and>
     new \<in> set after \<and>
     mset after = add_mset new (mset stored) \<and>
     ((\<forall>t\<in>set (new # stored). Date_parse P (date t) \<noteq> None) \<longrightarrow>
        (\<exists>pre post. after = pre @ new # post \<and> mset (pre @ post) = mset stored \<and>
           (\<forall>t\<in>set pre. getTime P new < getTime P t) \<and>
           (\<forall>t\<in>set post. getTime P t \<le> getTime P new)))"
proof -
  let ?existing = "Array_sort (byDateDescending P) stored"
  let ?s' = "s\<lparr>budget_tracker_transactions := Some (new # ?existing),
               history := history s @ [STORAGE_KEY]\<rparr>"
  let ?after = "Array_sort (byDateDescending P) (new # ?existing)"
  have add: "addTransaction P now random x s = (Inr new, ?s')"
    using assms by (simp add: addTransaction_ok)
  have get: "getTransactions P None None ?s' = (Inr ?after, ?s')"
    using assms(1) by (simp add: getTransactions_ok)
  have m: "mset ?after = add_mset new (mset stored)"
    by (simp add: mset_Array_sort)
  have mem: "new \<in> set ?after"
    by (simp add: set_Array_sort)
  have ord: "(\<forall>t\<in>set (new # stored). Date_parse P (date t) \<noteq> None) \<longrightarrow>
        (\<exists>pre post. ?after = pre @ new # post \<and> mset (pre @ post) = mset stored \<and>
           (\<forall>t\<in>set pre. getTime P new < getTime P t) \<and>
           (\<forall>t\<in>set post. getTime P t \<le> getTime P new))"
    using Array_sort_Cons_dates [of new stored P] by blast
  have st: "budget_tracker_transactions ?s' = Some (new # ?existing)" by simp
  have ex: "mset ?existing = mset stored" by (rule mset_Array_sort)
  have so: "(\<forall>t\<in>set stored. Date_parse P (date t) \<noteq> None) \<longrightarrow>
        ?existing = sort_key (\<lambda>t. - getTime P t) stored"
    by (simp add: Array_sort_dates)
  show ?thesis
  proof (intro exI conjI)
    show "addTransaction P now random x s = (Inr new, ?s')" by (rule add)
    show "budget_tracker_transactions ?s' = Some (new # ?existing)" by (rule st)
    show "mset ?existing = mset stored" by (rule ex)
    show "(\<forall>t\<in>set stored. Date_parse P (date t) \<noteq> None) \<longrightarrow>
        ?existing = sort_key (\<lambda>t. - getTime P t) stored" by (rule so)
    show "getTransactions P None None ?s' = (Inr ?after, ?s')" by (rule get)
    show "new \<in> set ?after" by (rule mem)
    show "mset ?after = add_mset new (mset stored)" by (rule m)
    show "(\<forall>t\<in>set (new # stored). Date_parse P (date t) \<noteq> None) \<longrightarrow>
        (\<exists>pre post. ?after = pre @ new # post \<and> mset (pre @ post) = mset stored \<and>
           (\<forall>t\<in>set pre. getTime P new < getTime P t) \<and>
           (\<forall>t\<in>set post. getTime P t \<le> getTime P new))" by (rule ord)
  qed
qed

lemma sample_draft_date: "iso_date ''2024-01-20'' = Some 1705708800000"
  by code_simp

text \<open>
  The theorem at the sample ledger: the new record, dated 20 January, comes after the
  record of 1 February and before the three records of earlier dates.
\<close>

theorem addTransaction_roundtrip_witness:
  "read_faults (store_of (Some sample_ledger) None None) = [] \<and>
   write_faults (store_of (Some sample_ledger) None None) = [] \<and>
   list_all (\<lambda>t. Date_parse sample_platform (date t) \<noteq> None)
     (sample_draft\<lparr>Transaction.id := generateId ''1706000000000'' ''0.k3j9x2m1q7z''\<rparr>
      # sample_ledger) \<and>
   fst (addTransaction sample_platform ''1706000000000'' ''0.k3j9x2m1q7z'' sample_draft
          (store_of (Some sample_ledger) None None))
     = Inr (tx ''1706000000000k3j9x2m1q'' expense ''Fun'' 30 ''2024-01-20'') \<and>
   fst (getTransactions sample_platform None None
          (snd (addTransaction sample_platform ''1706000000000'' ''0.k3j9x2m1q7z'' sample_draft
                  (store_of (Some sample_ledger) None None))))
     = Inr [tx ''c'' income ''Salary'' 2000 ''2024-02-01'',
            tx ''1706000000000k3j9x2m1q'' expense ''Fun'' 30 ''2024-01-20'',
            tx ''a'' expense ''Food'' 50 ''2024-01-05'',
            tx ''d'' expense ''Food'' 20 ''2024-01-05'',
            tx ''b'' income ''Salary'' 2000 ''2024-01-01'']"
  using addTransaction_roundtrip
          [where s = "store_of (Some sample_ledger) None None" and stored = sample_ledger
             and new = "tx ''1706000000000k3j9x2m1q'' expense ''Fun'' 30 ''2024-01-20''"
             and x = sample_draft and now = "''1706000000000''"
             and random = "''0.k3j9x2m1q7z''" and P = sample_platform]
        sample_sort_key
  by (simp add: addTransaction_ok getTransactions_ok store_of_def)
     (simp add: sample_ledger_def sample_draft_def tx_def sample_platform_def sample_dates
        sample_draft_date generateId_def Array_sort_def SortCompare_def byDateDescending_def)

text \<open>
  Claim C8 as stated fails in two places. The new record is not put in front of the
  stored collection as it is, but in front of its date-sorted copy: the record \<open>b\<close>,
  stored first, is stored last afterwards. And the id is not compared with the stored
  ids: a second call with the same readings of the clock and the random source stores a
  second record with the same id.
\<close>

theorem addTransaction_counterexample:
  "budget_tracker_transactions (store_of (Some sample_ledger) None None)
     = Some [tx ''b'' income ''Salary'' 2000 ''2024-01-01'',
             tx ''c'' income ''Salary'' 2000 ''2024-02-01'',
             tx ''a'' expense ''Food'' 50 ''2024-01-05'',
             tx ''d'' expense ''Food'' 20 ''2024-01-05''] \<and>
   budget_tracker_transactions
     (snd (addTransaction sample_platform ''1706000000000'' ''0.k3j9x2m1q7z'' sample_draft
             (store_of (Some sample_ledger) None None)))
     = Some [tx ''1706000000000k3j9x2m1q'' expense ''Fun'' 30 ''2024-01-20'',
             tx ''c'' income ''Salary'' 2000 ''2024-02-01'',
             tx ''a'' expense ''Food'' 50 ''2024-01-05'',
             tx ''d'' expense ''Food'' 20 ''2024-01-05'',
             tx ''b'' income ''Salary'' 2000 ''2024-01-01''] \<and>
   budget_tracker_transactions
     (snd (addTransaction sample_platform ''1706000000000'' ''0.k3j9x2m1q7z'' sample_draft
        (snd (addTransaction sample_platform ''1706000000000'' ''0.k3j9x2m1q7z'' sample_draft
                (store_of (Some sample_ledger) None None)))))
     = Some [tx ''1706000000000k3j9x2m1q'' expense ''Fun'' 30 ''2024-01-20'',
             tx ''c'' income ''Salary'' 2000 ''2024-02-01'',
             tx ''1706000000000k3j9x2m1q'' expense ''Fun'' 30 ''2024-01-20'',
             tx ''a'' expense ''Food'' 50 ''2024-01-05'',
             tx ''d'' expense ''Food'' 20 ''2024-01-05'',
             tx ''b'' income ''Salary'' 2000 ''2024-01-01'']"
  by code_simp

section \<open>Category registry\<close>

lemma getCategories_ok:
  "read_faults s = [] \<Longrightarrow> write_faults s = [] \<Longrightarrow>
   getCategories clock s =
     (case budget_tracker_categories s of
        Some cs \<Rightarrow> (Inr cs, s)
      | None \<Rightarrow>
          (Inr (defaultCategories clock),
           s\<lparr>budget_tracker_categories := Some (defaultCategories clock),
             history := history s @ [CATEGORIES_STORAGE_KEY]\<rparr>))"
  by (simp add: getCategories_def initializeDefaultCategories_def try_catch_def await_def
      resolve_def getItem_ok setItem_categories_ok Let_def split: option.splits)

lemma getCategories_after:
  assumes "read_faults s = []" and "write_faults s = []"
    and "getCategories clock s = (Inr cats, s1)"
  shows "read_faults s1 = []" and "write_faults s1 = []"
    and "budget_tracker_transactions s1 = budget_tracker_transactions s"
    and "budget_tracker_goals s1 = budget_tracker_goals s"
    and "budget_tracker_categories s1 = Some cats"
    and "budget_tracker_categories s \<noteq> None \<Longrightarrow> s1 = s"
    and "budget_tracker_categories s = None \<Longrightarrow> cats = defaultCategories clock"
  using assms by (auto simp add: getCategories_ok split: option.splits)

lemma updateCategoryInTransactions_ok:
  "read_faults s = [] \<Longrightarrow> write_faults s = [] \<Longrightarrow>
   updateCategoryInTransactions P old new s =
     (Inr (),
      s\<lparr>budget_tracker_transactions :=
           Some (map (\<lambda>t. if Transaction.category t = old
                           then t\<lparr>Transaction.category := new\<rparr> else t)
                   (Array_sort (byDateDescending P)
                      (case budget_tracker_transactions s of None \<Rightarrow> [] | Some l \<Rightarrow> l))),
        history := history s @ [STORAGE_KEY]\<rparr>)"
  by (simp add: updateCategoryInTransactions_def try_catch_def await_def Let_def
      getTransactions_ok setItem_transactions_ok Array_sort_def split: option.splits)

lemma updateCategoryInGoals_ok:
  "read_faults s = [] \<Longrightarrow> write_faults s = [] \<Longrightarrow>
   updateCategoryInGoals old new s =
     (Inr (),
      s\<lparr>budget_tracker_goals :=
           Some (map (\<lambda>g. if BudgetGoal.category g = old
                           then g\<lparr>BudgetGoal.category := new\<rparr> else g)
                   (case budget_tracker_goals s of None \<Rightarrow> [] | Some l \<Rightarrow> l)),
        history := history s @ [GOALS_STORAGE_KEY]\<rparr>)"
  by (simp add: updateCategoryInGoals_def try_catch_def await_def Let_def
      getBudgetGoals_ok setItem_goals_ok split: option.splits)

lemma findIndex_none: "(findIndex p xs = - 1) = (\<forall>x\<in>set xs. \<not> p x)"
proof (induction xs)
  case Nil
  then show ?case by simp
next
  case (Cons x xs)
  have "findIndex p ys \<ge> - 1" for ys
    by (induction ys) (auto simp add: Let_def)
  from this [of xs] have "findIndex p xs + 1 \<noteq> - 1" by arith
  then show ?case using Cons by (auto simp add: Let_def)
qed

lemma findIndex_first:
  "k < length xs \<Longrightarrow> p (xs ! k) \<Longrightarrow> \<forall>j<k. \<not> p (xs ! j) \<Longrightarrow> findIndex p xs = int k"
proof (induction xs arbitrary: k)
  case Nil
  then show ?case by simp
next
  case (Cons x xs)
  show ?case
  proof (cases k)
    case 0
    then show ?thesis using Cons.prems by simp
  next
    case (Suc n)
    have nx: "\<not> p x" using Cons.prems(3) Suc by auto
    have "findIndex p xs = int n"
      using Cons.prems Suc by (intro Cons.IH) auto
    then show ?thesis using nx Suc by (simp add: Let_def)
  qed
qed

text \<open>
  Claim C4, as amended. On a store whose calls succeed, with \<open>cats\<close> the categories as
  \<^verbatim>\<open>getCategories\<close> reads them: if no category has the id, \<^verbatim>\<open>updateCategory\<close> fails
  with \<^verbatim>\<open>Category not found\<close>. If the first category with the id is at position \<open>k\<close>
  and the update carries a name that is not empty and differs from the category's name,
  then the category field of exactly the transactions and goals that had the old name is
  rewritten to the new name, every other transaction and goal is kept as it is (the
  transactions are written back in the order \<^verbatim>\<open>getTransactions()\<close> gives them,
  descending by date when the dates are valid), the
  category at \<open>k\<close> is replaced by the merged record, and the three keys are written in
  the order transactions, goals, categories: the cascade comes before the category list.
\<close>

theorem updateCategory_rename:
  assumes "read_faults s = []" and "write_faults s = []"
    and "getCategories clock s = (Inr cats, s1)"
    and "txs = (case budget_tracker_transactions s of None \<Rightarrow> [] | Some l \<Rightarrow> l)"
    and "goals = (case budget_tracker_goals s of None \<Rightarrow> [] | Some l \<Rightarrow> l)"
  shows
    "((\<forall>c\<in>set cats. Category.id c \<noteq> i) \<longrightarrow>
        updateCategory P clock i updates s = (Inl (Error ''Category not found''), s1)) \<and>
     (k < length cats \<and> Category.id (cats ! k) = i \<and> (\<forall>j<k. Category.id (cats ! j) \<noteq> i) \<and>
      old = Category.name (cats ! k) \<and> PartialCategory.name updates = Some new \<and>
      new \<noteq> [] \<and> new \<noteq> old \<longrightarrow>
        (\<exists>s' sorted.
           updateCategory P clock i updates s = (Inr (), s') \<and>
           mset sorted = mset txs \<and>
           ((\<forall>t\<in>set txs. Date_parse P (date t) \<noteq> None) \<longrightarrow>
              sorted = sort_key (\<lambda>t. - getTime P t) txs) \<and>
           budget_tracker_transactions s' =
             Some (map (\<lambda>t. if Transaction.category t = old
                              then t\<lparr>Transaction.category := new\<rparr> else t) sorted) \<and>
           budget_tracker_goals s' =
             Some (map (\<lambda>g. if BudgetGoal.category g = old
                              then g\<lparr>BudgetGoal.category := new\<rparr> else g) goals) \<and>
           budget_tracker_categories s' =
             Some (cats[k := spread_category (cats ! k) updates]) \<and>
           history s' =
             history s1 @ [STORAGE_KEY, GOALS_STORAGE_KEY, CATEGORIES_STORAGE_KEY]))"
proof (intro conjI impI)
  assume "\<forall>c\<in>set cats. Category.id c \<noteq> i"
  then have "findIndex (\<lambda>cat. Category.id cat = i) cats = - 1"
    by (simp add: findIndex_none)
  then show "updateCategory P clock i updates s = (Inl (Error ''Category not found''), s1)"
    by (simp add: updateCategory_def try_catch_def await_def throw_def assms(3) Let_def)
next
  assume h: "k < length cats \<and> Category.id (cats ! k) = i \<and>
      (\<forall>j<k. Category.id (cats ! j) \<noteq> i) \<and>
      old = Category.name (cats ! k) \<and> PartialCategory.name updates = Some new \<and>
      new \<noteq> [] \<and> new \<noteq> old"
  note a = getCategories_after [OF assms(1,2,3)]
  have fi: "findIndex (\<lambda>cat. Category.id cat = i) cats = int k"
    using h by (intro findIndex_first) auto
  let ?rt = "\<lambda>t. if Transaction.category t = old then t\<lparr>Transaction.category := new\<rparr> else t"
  let ?rg = "\<lambda>g. if BudgetGoal.category g = old then g\<lparr>BudgetGoal.category := new\<rparr> else g"
  let ?s4 = "s1\<lparr>budget_tracker_transactions :=
                  Some (map ?rt (Array_sort (byDateDescending P) txs)),
                budget_tracker_goals := Some (map ?rg goals),
                budget_tracker_categories :=
                  Some (cats[k := spread_category (cats ! k) updates]),
                history :=
                  history s1 @ [STORAGE_KEY, GOALS_STORAGE_KEY, CATEGORIES_STORAGE_KEY]\<rparr>"
  have o: "Category.name (cats ! k) = old" and n: "PartialCategory.name updates = Some new"
    and ne: "new \<noteq> []" "old \<noteq> new"
    using h by auto
  have "updateCategory P clock i updates s = (Inr (), ?s4)"
    by (simp add: updateCategory_def try_catch_def await_def assms(3) Let_def fi o n ne
        updateCategoryInTransactions_ok updateCategoryInGoals_ok setItem_categories_ok
        a(1-4) assms(4,5) [symmetric])
  moreover have "mset (Array_sort (byDateDescending P) txs) = mset txs"
    by (rule mset_Array_sort)
  moreover have "(\<forall>t\<in>set txs. Date_parse P (date t) \<noteq> None) \<longrightarrow>
      Array_sort (byDateDescending P) txs = sort_key (\<lambda>t. - getTime P t) txs"
    by (simp add: Array_sort_dates)
  ultimately show "\<exists>s' sorted.
           updateCategory P clock i updates s = (Inr (), s') \<and>
           mset sorted = mset txs \<and>
           ((\<forall>t\<in>set txs. Date_parse P (date t) \<noteq> None) \<longrightarrow>
              sorted = sort_key (\<lambda>t. - getTime P t) txs) \<and>
           budget_tracker_transactions s' =
             Some (map (\<lambda>t. if Transaction.category t = old
                              then t\<lparr>Transaction.category := new\<rparr> else t) sorted) \<and>
           budget_tracker_goals s' =
             Some (map (\<lambda>g. if BudgetGoal.category g = old
                              then g\<lparr>BudgetGoal.category := new\<rparr> else g) goals) \<and>
           budget_tracker_categories s' =
             Some (cats[k := spread_category (cats ! k) updates]) \<and>
           history s' =
             history s1 @ [STORAGE_KEY, GOALS_STORAGE_KEY, CATEGORIES_STORAGE_KEY]"
    by (intro exI [of _ ?s4] exI [of _ "Array_sort (byDateDescending P) txs"]) simp
qed

text \<open>
  Claim C5, as amended. On a store whose calls succeed, with \<open>cats\<close> the categories as
  \<^verbatim>\<open>getCategories\<close> reads them and \<open>c\<close> the first category with the id: if \<open>c\<close> is not
  custom, \<^verbatim>\<open>deleteCategory\<close> fails with \<^verbatim>\<open>Cannot delete default categories\<close> and the
  transactions, the goals and the categories are as they were read (a store that has a
  category list is left exactly as it was; one that has none was seeded with the
  defaults by the read). If \<open>c\<close> is custom, the category field of every transaction and
  goal that had its name is rewritten to \<^verbatim>\<open>Other\<close>, the others are kept, and every
  category with the id is removed from the list.
\<close>

theorem deleteCategory_cascade:
  assumes "read_faults s = []" and "write_faults s = []"
    and "getCategories clock s = (Inr cats, s1)"
    and "List.find (\<lambda>cat. Category.id cat = i) cats = Some c"
    and "txs = (case budget_tracker_transactions s of None \<Rightarrow> [] | Some l \<Rightarrow> l)"
    and "goals = (case budget_tracker_goals s of None \<Rightarrow> [] | Some l \<Rightarrow> l)"
  shows
    "(\<not> Category.isCustom c \<longrightarrow>
        deleteCategory P clock i s = (Inl (Error ''Cannot delete default categories''), s1) \<and>
        budget_tracker_transactions s1 = budget_tracker_transactions s \<and>
        budget_tracker_goals s1 = budget_tracker_goals s \<and>
        budget_tracker_categories s1 = Some cats \<and>
        (budget_tracker_categories s \<noteq> None \<longrightarrow> s1 = s)) \<and>
     (Category.isCustom c \<longrightarrow>
        (\<exists>s' sorted.
           deleteCategory P clock i s = (Inr (), s') \<and>
           mset sorted = mset txs \<and>
           ((\<forall>t\<in>set txs. Date_parse P (date t) \<noteq> None) \<longrightarrow>
              sorted = sort_key (\<lambda>t. - getTime P t) txs) \<and>
           budget_tracker_transactions s' =
             Some (map (\<lambda>t. if Transaction.category t = Category.name c
                              then t\<lparr>Transaction.category := ''Other''\<rparr> else t) sorted) \<and>
           budget_tracker_goals s' =
             Some (map (\<lambda>g. if BudgetGoal.category g = Category.name c
                              then g\<lparr>BudgetGoal.category := ''Other''\<rparr> else g) goals) \<and>
           budget_tracker_categories s' =
             Some (filter (\<lambda>cat. Category.id cat \<noteq> i) cats) \<and>
           history s' =
             history s1 @ [STORAGE_KEY, GOALS_STORAGE_KEY, CATEGORIES_STORAGE_KEY]))"
proof (intro conjI impI)
  note a = getCategories_after [OF assms(1,2,3)]
  assume nc: "\<not> Category.isCustom c"
  show "deleteCategory P clock i s = (Inl (Error ''Cannot delete default categories''), s1)"
    using nc by (simp add: deleteCategory_def try_catch_def await_def throw_def assms(3,4))
  show "budget_tracker_transactions s1 = budget_tracker_transactions s" by (rule a)
  show "budget_tracker_goals s1 = budget_tracker_goals s" by (rule a)
  show "budget_tracker_categories s1 = Some cats" by (rule a)
  show "s1 = s" if "budget_tracker_categories s \<noteq> None" using that by (rule a)
next
  note a = getCategories_after [OF assms(1,2,3)]
  assume cu: "Category.isCustom c"
  let ?rt = "\<lambda>t. if Transaction.category t = Category.name c
                  then t\<lparr>Transaction.category := ''Other''\<rparr> else t"
  let ?rg = "\<lambda>g. if BudgetGoal.category g = Category.name c
                  then g\<lparr>BudgetGoal.category := ''Other''\<rparr> else g"
  let ?s4 = "s1\<lparr>budget_tracker_transactions :=
                  Some (map ?rt (Array_sort (byDateDescending P) txs)),
                budget_tracker_goals := Some (map ?rg goals),
                budget_tracker_categories :=
                  Some (filter (\<lambda>cat. Category.id cat \<noteq> i) cats),
                history :=
                  history s1 @ [STORAGE_KEY, GOALS_STORAGE_KEY, CATEGORIES_STORAGE_KEY]\<rparr>"
  have "deleteCategory P clock i s = (Inr (), ?s4)"
    using cu
    by (simp add: deleteCategory_def try_catch_def await_def assms(3,4) Let_def
        updateCategoryInTransactions_ok updateCategoryInGoals_ok setItem_categories_ok
        a(1-4) assms(5,6) [symmetric])
  moreover have "mset (Array_sort (byDateDescending P) txs) = mset txs"
    by (rule mset_Array_sort)
  moreover have "(\<forall>t\<in>set txs. Date_parse P (date t) \<noteq> None) \<longrightarrow>
      Array_sort (byDateDescending P) txs = sort_key (\<lambda>t. - getTime P t) txs"
    by (simp add: Array_sort_dates)
  ultimately show "\<exists>s' sorted.
           deleteCategory P clock i s = (Inr (), s') \<and>
           mset sorted = mset txs \<and>
           ((\<forall>t\<in>set txs. Date_parse P (date t) \<noteq> None) \<longrightarrow>
              sorted = sort_key (\<lambda>t. - getTime P t) txs) \<and>
           budget_tracker_transactions s' =
             Some (map (\<lambda>t. if Transaction.category t = Category.name c
                              then t\<lparr>Transaction.category := ''Other''\<rparr> else t) sorted) \<and>
           budget_tracker_goals s' =
             Some (map (\<lambda>g. if BudgetGoal.category g = Category.name c
                              then g\<lparr>BudgetGoal.category := ''Other''\<rparr> else g) goals) \<and>
           budget_tracker_categories s' =
             Some (filter (\<lambda>cat. Category.id cat \<noteq> i) cats) \<and>
           history s' =
             history s1 @ [STORAGE_KEY, GOALS_STORAGE_KEY, CATEGORIES_STORAGE_KEY]"
    by (intro exI [of _ ?s4] exI [of _ "Array_sort (byDateDescending P) txs"]) simp
qed

text \<open>
  Claim C10, as amended. On a store whose calls succeed, with \<open>cats\<close> the categories as
  \<^verbatim>\<open>getCategories\<close> reads them: if no category has the id, \<^verbatim>\<open>deleteCategory\<close> fails
  with \<^verbatim>\<open>Category not found\<close>, and the transactions, the goals and the categories are
  as they were read (a store that has a category list is left exactly as it was).
\<close>

theorem deleteCategory_not_found:
  assumes "read_faults s = []" and "write_faults s = []"
    and "getCategories clock s = (Inr cats, s1)"
    and "\<forall>c\<in>set cats. Category.id c \<noteq> i"
  shows "deleteCategory P clock i s = (Inl (Error ''Category not found''), s1) \<and>
         budget_tracker_transactions s1 = budget_tracker_transactions s \<and>
         budget_tracker_goals s1 = budget_tracker_goals s \<and>
         budget_tracker_categories s1 = Some cats \<and>
         (budget_tracker_categories s \<noteq> None \<longrightarrow> s1 = s)"
proof -
  note a = getCategories_after [OF assms(1,2,3)]
  have "List.find (\<lambda>cat. Category.id cat = i) cats = None"
    using assms(4) by (simp add: find_None_iff)
  then have "deleteCategory P clock i s = (Inl (Error ''Category not found''), s1)"
    by (simp add: deleteCategory_def try_catch_def await_def throw_def assms(3))
  then show ?thesis using a by blast
qed

lemma sample_store_fields:
  "read_faults sample_store = []" "write_faults sample_store = []"
  "budget_tracker_transactions sample_store = Some sample_ledger"
  "budget_tracker_goals sample_store = Some sample_goals"
  "budget_tracker_categories sample_store = Some sample_registry"
  "history sample_store = []"
  by (simp_all add: sample_store_def store_of_def)

lemma sample_getCategories:
  "getCategories sample_clock sample_store = (Inr sample_registry, sample_store)"
  by (simp add: getCategories_ok sample_store_fields)

text \<open>
  The theorem at the sample store, for an id that is not stored and for the renaming of
  \<^verbatim>\<open>Food\<close> to \<^verbatim>\<open>Dining\<close>.
\<close>

theorem updateCategory_rename_witness:
  "read_faults sample_store = [] \<and> write_faults sample_store = [] \<and>
   getCategories sample_clock sample_store = (Inr sample_registry, sample_store) \<and>
   list_all (\<lambda>c. Category.id c \<noteq> ''zz'') sample_registry \<and>
   list_all (\<lambda>t. Date_parse sample_platform (date t) \<noteq> None) sample_ledger \<and>
   updateCategory sample_platform sample_clock ''zz'' (only_name ''Dining'') sample_store
     = (Inl (Error ''Category not found''), sample_store) \<and>
   (1::nat) < length sample_registry \<and> Category.id (sample_registry ! 1) = ''c1'' \<and>
   Category.id (sample_registry ! 0) \<noteq> ''c1'' \<and>
   ''Food'' = Category.name (sample_registry ! 1) \<and>
   PartialCategory.name (only_name ''Dining'') = Some ''Dining'' \<and>
   ''Dining'' \<noteq> [] \<and> ''Dining'' \<noteq> ''Food'' \<and>
   (\<exists>s'. updateCategory sample_platform sample_clock ''c1'' (only_name ''Dining'') sample_store
           = (Inr (), s') \<and>
         budget_tracker_transactions s' =
           Some [tx ''c'' income ''Salary'' 2000 ''2024-02-01'',
                 tx ''a'' expense ''Dining'' 50 ''2024-01-05'',
                 tx ''d'' expense ''Dining'' 20 ''2024-01-05'',
                 tx ''b'' income ''Salary'' 2000 ''2024-01-01''] \<and>
         budget_tracker_goals s' =
           Some [budget ''g1'' ''Dining'' 500 True, budget ''g2'' ''Fun'' 100 True] \<and>
         budget_tracker_categories s' =
           Some [cat ''expense-9'' ''Other'' False, cat ''c1'' ''Dining'' True,
                 cat ''c2'' ''Fun'' True] \<and>
         history s' = [STORAGE_KEY, GOALS_STORAGE_KEY, CATEGORIES_STORAGE_KEY])"
  using updateCategory_rename
          [where s = sample_store and clock = sample_clock and cats = sample_registry
             and ?s1.0 = sample_store and txs = sample_ledger and goals = sample_goals
             and i = "''zz''" and P = sample_platform and updates = "only_name ''Dining''"
             and k = 0 and old = "[]" and new = "[]"]
        updateCategory_rename
          [where s = sample_store and clock = sample_clock and cats = sample_registry
             and ?s1.0 = sample_store and txs = sample_ledger and goals = sample_goals
             and i = "''c1''" and P = sample_platform and updates = "only_name ''Dining''"
             and k = 1 and old = "''Food''" and new = "''Dining''"]
        sample_valid
  by (simp add: sample_store_fields sample_getCategories sample_sort_key list_all_iff)
     (auto simp add: sample_registry_def sample_goals_def cat_def budget_def tx_def
        only_name_def spread_category_def)

text \<open>
  Claim C4 as stated fails in two places. A change of the name to the empty string is not
  cascaded: the guard \<^verbatim>\<open>updates.name && ...\<close> is false, so the category is stored
  with the empty name while the transactions and goals keep the old name \<^verbatim>\<open>Food\<close>.
  And on a store that holds no category list the id \<^verbatim>\<open>expense-0\<close> matches no stored
  category, yet the update succeeds, on the defaults that the read has seeded.
\<close>

theorem updateCategory_rename_counterexample:
  "updateCategory sample_platform sample_clock ''c1'' (only_name []) sample_store
     = (Inr (),
        sample_store\<lparr>budget_tracker_categories :=
                       Some [cat ''expense-9'' ''Other'' False, cat ''c1'' [] True,
                             cat ''c2'' ''Fun'' True],
                     history := [CATEGORIES_STORAGE_KEY]\<rparr>) \<and>
   Category.name (sample_registry ! 1) = ''Food'' \<and>
   budget_tracker_transactions sample_store =
     Some [tx ''b'' income ''Salary'' 2000 ''2024-01-01'',
           tx ''c'' income ''Salary'' 2000 ''2024-02-01'',
           tx ''a'' expense ''Food'' 50 ''2024-01-05'',
           tx ''d'' expense ''Food'' 20 ''2024-01-05''] \<and>
   budget_tracker_goals sample_store =
     Some [budget ''g1'' ''Food'' 500 True, budget ''g2'' ''Fun'' 100 True] \<and>
   budget_tracker_categories (store_of None None None) = None \<and>
   fst (updateCategory sample_platform sample_clock ''expense-0'' (only_name ''Dining'')
          (store_of None None None)) = Inr ()"
  by code_simp

text \<open>
  The theorem at the sample store, for the default category \<^verbatim>\<open>expense-9\<close> and for the
  custom category \<^verbatim>\<open>c1\<close>.
\<close>

theorem deleteCategory_cascade_witness:
  "read_faults sample_store = [] \<and> write_faults sample_store = [] \<and>
   getCategories sample_clock sample_store = (Inr sample_registry, sample_store) \<and>
   budget_tracker_categories sample_store \<noteq> None \<and>
   list_all (\<lambda>t. Date_parse sample_platform (date t) \<noteq> None) sample_ledger \<and>
   List.find (\<lambda>c. Category.id c = ''expense-9'') sample_registry
     = Some (cat ''expense-9'' ''Other'' False) \<and>
   \<not> Category.isCustom (cat ''expense-9'' ''Other'' False) \<and>
   deleteCategory sample_platform sample_clock ''expense-9'' sample_store
     = (Inl (Error ''Cannot delete default categories''), sample_store) \<and>
   List.find (\<lambda>c. Category.id c = ''c1'') sample_registry = Some (cat ''c1'' ''Food'' True) \<and>
   Category.isCustom (cat ''c1'' ''Food'' True) \<and>
   (\<exists>s'. deleteCategory sample_platform sample_clock ''c1'' sample_store = (Inr (), s') \<and>
         budget_tracker_transactions s' =
           Some [tx ''c'' income ''Salary'' 2000 ''2024-02-01'',
                 tx ''a'' expense ''Other'' 50 ''2024-01-05'',
                 tx ''d'' expense ''Other'' 20 ''2024-01-05'',
                 tx ''b'' income ''Salary'' 2000 ''2024-01-01''] \<and>
         budget_tracker_goals s' =
           Some [budget ''g1'' ''Other'' 500 True, budget ''g2'' ''Fun'' 100 True] \<and>
         budget_tracker_categories s' =
           Some [cat ''expense-9'' ''Other'' False, cat ''c2'' ''Fun'' True] \<and>
         history s' = [STORAGE_KEY, GOALS_STORAGE_KEY, CATEGORIES_STORAGE_KEY])"
  using deleteCategory_cascade
          [where s = sample_store and clock = sample_clock and cats = sample_registry
             and ?s1.0 = sample_store and txs = sample_ledger and goals = sample_goals
             and i = "''expense-9''" and P = sample_platform
             and c = "cat ''expense-9'' ''Other'' False"]
        deleteCategory_cascade
          [where s = sample_store and clock = sample_clock and cats = sample_registry
             and ?s1.0 = sample_store and txs = sample_ledger and goals = sample_goals
             and i = "''c1''" and P = sample_platform and c = "cat ''c1'' ''Food'' True"]
        sample_valid
  by (simp add: sample_store_fields sample_getCategories sample_sort_key list_all_iff)
     (auto simp add: sample_registry_def sample_goals_def cat_def budget_def tx_def)

text \<open>
  Claim C5 as stated fails on a store that holds no category list: deleting the default
  category \<^verbatim>\<open>expense-0\<close> fails as claimed, but the read has stored the sixteen default
  categories, so the stored categories are not what they were.
\<close>

theorem deleteCategory_default_counterexample:
  "budget_tracker_categories (store_of None None None) = None \<and>
   deleteCategory sample_platform sample_clock ''expense-0'' (store_of None None None)
     = (Inl (Error ''Cannot delete default categories''),
        store_of None None (Some (defaultCategories sample_clock))
          \<lparr>history := [CATEGORIES_STORAGE_KEY]\<rparr>) \<and>
   length (defaultCategories sample_clock) = 16"
  by code_simp

text \<open>
  The theorem at the sample store, for an id that is not stored.
\<close>

theorem deleteCategory_not_found_witness:
  "read_faults sample_store = [] \<and> write_faults sample_store = [] \<and>
   getCategories sample_clock sample_store = (Inr sample_registry, sample_store) \<and>
   budget_tracker_categories sample_store \<noteq> None \<and>
   list_all (\<lambda>c. Category.id c \<noteq> ''zz'') sample_registry \<and>
   deleteCategory sample_platform sample_clock ''zz'' sample_store
     = (Inl (Error ''Category not found''), sample_store)"
  using deleteCategory_not_found
          [where s = sample_store and clock = sample_clock and cats = sample_registry
             and ?s1.0 = sample_store and i = "''zz''" and P = sample_platform]
  by (simp add: sample_store_fields sample_getCategories)
     (simp add: sample_registry_def cat_def)

text \<open>
  Claim C10 as stated fails on a store that holds no category list: no category is
  stored, yet deleting \<^verbatim>\<open>expense-0\<close> fails with \<^verbatim>\<open>Cannot delete default categories\<close>
  and not with \<^verbatim>\<open>Category not found\<close>; and deleting an unknown id fails with
  \<^verbatim>\<open>Category not found\<close> but leaves the sixteen default categories stored.
\<close>

theorem deleteCategory_unseeded_counterexample:
  "budget_tracker_categories (store_of None None None) = None \<and>
   fst (deleteCategory sample_platform sample_clock ''expense-0'' (store_of None None None))
     = Inl (Error ''Cannot delete default categories'') \<and>
   deleteCategory sample_platform sample_clock ''zz'' (store_of None None None)
     = (Inl (Error ''Category not found''),
        store_of None None (Some (defaultCategories sample_clock))
          \<lparr>history := [CATEGORIES_STORAGE_KEY]\<rparr>)"
  by code_simp

section \<open>Failures of the store\<close>































end
